theory Spec2Isabelle
  imports Main "HOL-Library.AList" "HOL-Library.Option_ord"
begin

section \<open>JavaScript values and thrown values\<close>

text \<open>
  A decoded JSON value, as \<open>response.json()\<close> yields it. A property that is absent reads
  as \<open>undefined\<close>; that is \<open>None\<close> of \<open>json option\<close> below.
\<close>

datatype json =
    JNull
  | JBool bool
  | JNum int
  | JStr string
  | JArr "json list"
  | JObj "(string \<times> json) list"

text \<open>
  What a \<open>throw\<close> or a rejected promise carries. \<open>Error m\<close> is an instance of the class
  \<open>Error\<close> with message \<open>m\<close>; \<open>TypeError m\<close> is an instance of its subclass; \<open>Value v\<close>
  is any other value (JavaScript lets a program throw a string or a plain object).
\<close>

datatype thrown =
    Error string
  | TypeError string
  | Value json

fun instanceof_Error :: "thrown \<Rightarrow> bool" where
  "instanceof_Error (Error m) = True"
| "instanceof_Error (TypeError m) = True"
| "instanceof_Error (Value v) = False"

text \<open>
  Reading \<open>err.message\<close>, as the home screen does with \<open>moviesError?.message\<close>: the message
  of an error object, the string property \<open>message\<close> of a plain object, nothing otherwise.
\<close>

fun message_of :: "thrown \<Rightarrow> string option" where
  "message_of (Error m) = Some m"
| "message_of (TypeError m) = Some m"
| "message_of (Value (JObj fs)) =
     (case map_of fs ''message'' of Some (JStr m) \<Rightarrow> Some m | _ \<Rightarrow> None)"
| "message_of (Value v) = None"

section \<open>The telemetry store\<close>

text \<open>
  The document store is the external service behind \<open>react-native-appwrite\<close>. A document
  is its identifier \<open>$id\<close> and a field map; an attribute holds null, an integer or a
  string, and a key that is absent reads as \<open>undefined\<close>.
\<close>

datatype attr = ANull | AInt int | AStr string

record document =
  doc_id :: nat
  attrs :: "(string \<times> attr) list"

datatype query =
    Equal string attr
  | Limit nat
  | OrderDesc string

text \<open>\<open>ID.unique()\<close>: the request that the store generates the identifier itself.\<close>

datatype id_request = ID_unique

datatype log_entry =
    RecordSearchFailed thrown
  | Logged thrown

text \<open>
  The state the operations run in: the collection (documents in creation order), the
  outcomes the store will give to the coming calls (\<open>Some e\<close>: the call fails with \<open>e\<close>;
  \<open>None\<close>, or an empty list: it succeeds), and what \<open>console.error\<close> has printed.
\<close>

record world =
  documents :: "document list"
  faults :: "thrown option list"
  console :: "log_entry list"

definition next_fault :: "world \<Rightarrow> thrown option \<times> world" where
  "next_fault w =
     (case faults w of
        [] \<Rightarrow> (None, w)
      | f # fs \<Rightarrow> (f, w\<lparr>faults := fs\<rparr>))"

definition console_error :: "log_entry \<Rightarrow> world \<Rightarrow> world" where
  "console_error l w = w\<lparr>console := console w @ [l]\<rparr>"

definition field :: "string \<Rightarrow> document \<Rightarrow> attr option" where
  "field k d = map_of (attrs d) k"

subsection \<open>Listing\<close>

fun matches :: "query \<Rightarrow> document \<Rightarrow> bool" where
  "matches (Equal k v) d = (field k d = Some v)"
| "matches (Limit n) d = True"
| "matches (OrderDesc k) d = True"

text \<open>
  The sort key of a document under \<open>orderDesc(k)\<close>: its integer, with a document that has
  no integer there below every integer.
\<close>

definition rank :: "string \<Rightarrow> document \<Rightarrow> int option" where
  "rank k d = (case field k d of Some (AInt n) \<Rightarrow> Some n | _ \<Rightarrow> None)"

fun insert_desc :: "string \<Rightarrow> document \<Rightarrow> document list \<Rightarrow> document list" where
  "insert_desc k d [] = [d]"
| "insert_desc k d (e # es) =
     (if rank k e \<le> rank k d then d # e # es else e # insert_desc k d es)"

definition order_desc :: "string \<Rightarrow> document list \<Rightarrow> document list" where
  "order_desc k ds = foldr (insert_desc k) ds []"

fun apply_order :: "query list \<Rightarrow> document list \<Rightarrow> document list" where
  "apply_order [] ds = ds"
| "apply_order (OrderDesc k # qs) ds = order_desc k (apply_order qs ds)"
| "apply_order (q # qs) ds = apply_order qs ds"

fun apply_limit :: "query list \<Rightarrow> document list \<Rightarrow> document list" where
  "apply_limit [] ds = ds"
| "apply_limit (Limit n # qs) ds = take n ds"
| "apply_limit (q # qs) ds = apply_limit qs ds"

text \<open>
  Modelled from the spec: \<open>listDocuments\<close> of the store's client library, which is not part
  of the repository. The spec gives the protocol: a list/query with an equality filter
  and/or an order-by and limit clause; the matching documents are ordered first and the
  limit keeps the top of that order.
\<close>

definition select :: "query list \<Rightarrow> document list \<Rightarrow> document list" where
  "select qs ds = apply_limit qs (apply_order qs (filter (\<lambda>d. list_all (\<lambda>q. matches q d) qs) ds))"

definition listDocuments :: "query list \<Rightarrow> world \<Rightarrow> (thrown + document list) \<times> world" where
  "listDocuments qs w =
     (case next_fault w of
        (Some e, w') \<Rightarrow> (Inl e, w')
      | (None, w') \<Rightarrow> (Inr (select qs (documents w')), w'))"

subsection \<open>Creating and updating\<close>

definition fresh_id :: "document list \<Rightarrow> nat" where
  "fresh_id ds = Suc (foldr max (map doc_id ds) 0)"

text \<open>
  Modelled from the spec: \<open>createDocument\<close> of the store's client library: create-document
  with a generated unique identifier and a field map. The identifier generated is one that
  no document of the collection has. A call that fails leaves the collection as it was.
\<close>

definition createDocument ::
  "id_request \<Rightarrow> (string \<times> attr) list \<Rightarrow> world \<Rightarrow> (thrown + document) \<times> world" where
  "createDocument r data w =
     (case next_fault w of
        (Some e, w') \<Rightarrow> (Inl e, w')
      | (None, w') \<Rightarrow>
          (let d = \<lparr>doc_id = fresh_id (documents w'), attrs = data\<rparr>
           in (Inr d, w'\<lparr>documents := documents w' @ [d]\<rparr>)))"

fun patch_document :: "nat \<Rightarrow> (string \<times> attr) list \<Rightarrow> document list \<Rightarrow> document list" where
  "patch_document i p [] = []"
| "patch_document i p (d # ds) =
     (if doc_id d = i then d\<lparr>attrs := AList.merge (attrs d) p\<rparr> # ds
      else d # patch_document i p ds)"

text \<open>
  Modelled from the spec: \<open>updateDocument\<close> of the store's client library: update-document
  by identifier with a partial field map; the fields the map does not name keep their
  values.
\<close>

definition updateDocument ::
  "nat \<Rightarrow> (string \<times> attr) list \<Rightarrow> world \<Rightarrow> (thrown + document) \<times> world" where
  "updateDocument i p w =
     (case next_fault w of
        (Some e, w') \<Rightarrow> (Inl e, w')
      | (None, w') \<Rightarrow>
          (case find (\<lambda>d. doc_id d = i) (documents w') of
             None \<Rightarrow> (Inl (Error ''Document with the requested ID could not be found''), w')
           | Some d \<Rightarrow>
               (Inr (d\<lparr>attrs := AList.merge (attrs d) p\<rparr>),
                w'\<lparr>documents := patch_document i p (documents w')\<rparr>)))"

section \<open>Recording a search: \<open>updateSearchCount\<close>\<close>

text \<open>The \<open>Movie\<close> a caller passes: \<open>ident\<close> is its \<open>id\<close>; a null poster path is \<open>None\<close>.\<close>

record movie =
  ident :: int
  title :: string
  poster_path :: "string option"

text \<open>JavaScript's truthiness, \<open>x || 0\<close>, and \<open>x + 1\<close> on what a field can hold.\<close>

fun truthy :: "attr option \<Rightarrow> bool" where
  "truthy None = False"
| "truthy (Some ANull) = False"
| "truthy (Some (AInt n)) = (n \<noteq> 0)"
| "truthy (Some (AStr s)) = (s \<noteq> [])"

definition or_zero :: "attr option \<Rightarrow> attr" where
  "or_zero v = (case v of None \<Rightarrow> AInt 0 | Some a \<Rightarrow> if truthy v then a else AInt 0)"

fun plus_one :: "attr \<Rightarrow> attr" where
  "plus_one (AInt n) = AInt (n + 1)"
| "plus_one (AStr s) = AStr (s @ ''1'')"
| "plus_one ANull = AInt 1"

definition image_base :: string where
  "image_base = ''https://image.tmdb.org/t/p/w500''"

definition poster_url_of :: "movie \<Rightarrow> attr" where
  "poster_url_of movie =
     (case poster_path movie of
        None \<Rightarrow> ANull
      | Some p \<Rightarrow> if p \<noteq> [] then AStr (image_base @ p) else ANull)"

definition new_record :: "string \<Rightarrow> movie \<Rightarrow> (string \<times> attr) list" where
  "new_record query movie =
     [(''searchTerm'', AStr query),
      (''movie_id'', AInt (ident movie)),
      (''title'', AStr (title movie)),
      (''count'', AInt 1),
      (''poster_url'', poster_url_of movie)]"

text \<open>
  The body of the \<open>try\<close> block: a failing store call leaves it at once. The log entry
  \<open>RecordSearchFailed\<close> stands for the label the \<open>catch\<close> block prints before the error.
\<close>

definition updateSearchCount_try :: "string \<Rightarrow> movie \<Rightarrow> world \<Rightarrow> (thrown + unit) \<times> world" where
  "updateSearchCount_try query movie w =
     (case listDocuments [Equal ''searchTerm'' (AStr query)] w of
        (Inl e, w1) \<Rightarrow> (Inl e, w1)
      | (Inr result, w1) \<Rightarrow>
          if length result > 0 then
            (let existingMovie = result ! 0 in
             case updateDocument (doc_id existingMovie)
                    [(''count'', plus_one (or_zero (field ''count'' existingMovie)))] w1 of
               (Inl e, w2) \<Rightarrow> (Inl e, w2)
             | (Inr d, w2) \<Rightarrow> (Inr (), w2))
          else
            (case createDocument ID_unique (new_record query movie) w1 of
               (Inl e, w2) \<Rightarrow> (Inl e, w2)
             | (Inr d, w2) \<Rightarrow> (Inr (), w2)))"

text \<open>The \<open>catch\<close> block logs what was thrown; the function then returns normally.\<close>

definition updateSearchCount :: "string \<Rightarrow> movie \<Rightarrow> world \<Rightarrow> (thrown + unit) \<times> world" where
  "updateSearchCount query movie w =
     (case updateSearchCount_try query movie w of
        (Inl err, w') \<Rightarrow> (Inr (), console_error (RecordSearchFailed err) w')
      | (Inr u, w') \<Rightarrow> (Inr u, w'))"

section \<open>The trending list: \<open>getTrendingMovies\<close>\<close>

definition getTrendingMovies :: "world \<Rightarrow> (thrown + document list option) \<times> world" where
  "getTrendingMovies w =
     (case listDocuments [Limit 5, OrderDesc ''count''] w of
        (Inl error, w') \<Rightarrow> (Inr None, console_error (Logged error) w')
      | (Inr result, w') \<Rightarrow> (Inr (Some result), w'))"

section \<open>The catalog client: \<open>fetchMovies\<close>\<close>

record request =
  url :: string
  http_method :: string
  headers :: "(string \<times> string) list"

text \<open>
  What \<open>fetch\<close> resolves to: the \<open>ok\<close> flag, the status text, and what \<open>response.json()\<close>
  will give (the decoded body, or the error it rejects with when the body is not JSON).
\<close>

record response =
  ok :: bool
  statusText :: string
  json_result :: "thrown + json"

text \<open>
  The network: how the remote side answers a request (\<open>Inl\<close>: \<open>fetch\<close> itself rejects),
  and the requests issued so far.
\<close>

record net =
  respond :: "request \<Rightarrow> thrown + response"
  sent :: "request list"

definition fetch :: "request \<Rightarrow> net \<Rightarrow> (thrown + response) \<times> net" where
  "fetch r n = (respond n r, n\<lparr>sent := sent n @ [r]\<rparr>)"

definition BASE_URL :: string where
  "BASE_URL = ''https://api.themoviedb.org/3''"

text \<open>
  The headers of \<open>TMDB_CONFIG\<close>. The key comes from the environment; when the variable is
  not set the template literal prints \<open>undefined\<close>.
\<close>

definition TMDB_headers :: "string option \<Rightarrow> (string \<times> string) list" where
  "TMDB_headers key =
     [(''accept'', ''application/json''),
      (''Authorization'', ''Bearer '' @ (case key of None \<Rightarrow> ''undefined'' | Some k \<Rightarrow> k))]"

text \<open>
  The built-in \<open>encodeURIComponent\<close>, on the UTF-8 bytes of a well-formed string: letters,
  digits and \<open>- _ . ! ~ * ' ( )\<close> stay, every other byte becomes \<open>%XX\<close>.
\<close>

definition unreserved :: "char \<Rightarrow> bool" where
  "unreserved c =
     (c \<in> set ''ABCDEFGHIJKLMNOPQRSTUVWXYZabcdefghijklmnopqrstuvwxyz0123456789-_.!~*()''
      \<or> c = CHR 0x27)"

definition hex_digit :: "nat \<Rightarrow> char" where
  "hex_digit n = ''0123456789ABCDEF'' ! (n mod 16)"

definition percent :: "char \<Rightarrow> string" where
  "percent c = [CHR ''%'', hex_digit (of_char c div 16), hex_digit (of_char c mod 16)]"

definition encodeURIComponent :: "string \<Rightarrow> string" where
  "encodeURIComponent s = concat (map (\<lambda>c. if unreserved c then [c] else percent c) s)"

definition endpoint :: "string \<Rightarrow> string" where
  "endpoint query =
     (if query \<noteq> []
      then BASE_URL @ ''/search/movie?query='' @ encodeURIComponent query
      else BASE_URL @ ''/discover/movie?sort_by=popularity.desc'')"

text \<open>
  Reading \<open>data.results\<close>: a \<open>TypeError\<close> on null, the property of an object
  (\<open>undefined\<close>, that is \<open>None\<close>, when it has none), \<open>undefined\<close> on every other value.
\<close>

fun get_results :: "json \<Rightarrow> thrown + json option" where
  "get_results JNull = Inl (TypeError ''Cannot read property results of null'')"
| "get_results (JObj fs) = Inr (map_of fs ''results'')"
| "get_results v = Inr None"

definition fetchMovies :: "string option \<Rightarrow> string \<Rightarrow> net \<Rightarrow> (thrown + json option) \<times> net" where
  "fetchMovies key query n =
     (case fetch \<lparr>url = endpoint query, http_method = ''GET'', headers = TMDB_headers key\<rparr> n of
        (Inl e, n') \<Rightarrow> (Inl e, n')
      | (Inr response, n') \<Rightarrow>
          if \<not> ok response
          then (Inl (Error (''Failed to fetch movies: '' @ statusText response)), n')
          else (case json_result response of
                  Inl e \<Rightarrow> (Inl e, n')
                | Inr data \<Rightarrow> (get_results data, n')))"

section \<open>The fetch hook: \<open>useFetch\<close>\<close>

record 'a fetch_state =
  data :: "'a option"
  loading :: bool
  error :: "thrown option"

definition initial_state :: "'a fetch_state" where
  "initial_state = \<lparr>data = None, loading = False, error = None\<rparr>"

definition wrap_error :: "thrown \<Rightarrow> thrown" where
  "wrap_error err = (if instanceof_Error err then err else Error ''An unknown error occurred'')"

text \<open>
  \<open>fetchData\<close>, with the producer \<open>fetchFunction\<close> given by its outcome: the state while
  the producer runs, and the state once the \<open>try\<close>, \<open>catch\<close> and \<open>finally\<close> blocks are done.
\<close>

definition fetchData_pending :: "'a fetch_state \<Rightarrow> 'a fetch_state" where
  "fetchData_pending s = (s\<lparr>loading := True\<rparr>)\<lparr>error := None\<rparr>"

definition fetchData :: "(unit \<Rightarrow> thrown + 'a) \<Rightarrow> 'a fetch_state \<Rightarrow> 'a fetch_state" where
  "fetchData fetchFunction s =
     (let s1 = fetchData_pending s;
          s2 = (case fetchFunction () of
                  Inr result \<Rightarrow> s1\<lparr>data := Some result\<rparr>
                | Inl err \<Rightarrow> s1\<lparr>error := Some (wrap_error err)\<rparr>)
      in s2\<lparr>loading := False\<rparr>)"

definition reset :: "'a fetch_state \<Rightarrow> 'a fetch_state" where
  "reset s = ((s\<lparr>data := None\<rparr>)\<lparr>error := None\<rparr>)\<lparr>loading := False\<rparr>"

text \<open>The state a mounted hook settles in: the effect runs \<open>fetchData\<close> once when \<open>autoFetch\<close>.\<close>

definition useFetch :: "(unit \<Rightarrow> thrown + 'a) \<Rightarrow> bool \<Rightarrow> 'a fetch_state" where
  "useFetch fetchFunction autoFetch =
     (if autoFetch then fetchData fetchFunction initial_state else initial_state)"

text \<open>The shape the catalog's answer is expected to have: an object whose \<open>results\<close> is an array.\<close>

fun has_results :: "json \<Rightarrow> bool" where
  "has_results (JObj fs) = (case map_of fs ''results'' of Some (JArr items) \<Rightarrow> True | _ \<Rightarrow> False)"
| "has_results v = False"



definition quiet_net :: "response \<Rightarrow> net" where
  "quiet_net r = \<lparr>respond = (\<lambda>q. Inr r), sent = []\<rparr>"

section \<open>Sequences of store operations\<close>

datatype operation =
    RecordSearch string movie
  | GetTrending

fun run :: "operation list \<Rightarrow> world \<Rightarrow> world" where
  "run [] w = w"
| "run (RecordSearch q m # ops) w = run ops (snd (updateSearchCount q m w))"
| "run (GetTrending # ops) w = run ops (snd (getTrendingMovies w))"

section \<open>Notions the properties are stated with\<close>

text \<open>The records of a search term, the term a record is filed under, and its count.\<close>

definition records_for :: "string \<Rightarrow> document list \<Rightarrow> document list" where
  "records_for t ds = filter (\<lambda>d. field ''searchTerm'' d = Some (AStr t)) ds"

definition term_of :: "document \<Rightarrow> string option" where
  "term_of d = (case field ''searchTerm'' d of Some (AStr t) \<Rightarrow> Some t | _ \<Rightarrow> None)"

definition one_per_term :: "document list \<Rightarrow> bool" where
  "one_per_term ds = distinct (List.map_filter term_of ds)"

definition count_for :: "string \<Rightarrow> document list \<Rightarrow> int option" where
  "count_for t ds = (case records_for t ds of [] \<Rightarrow> None | d # _ \<Rightarrow> rank ''count'' d)"

text \<open>The store keeps document identifiers unique.\<close>

definition unique_ids :: "document list \<Rightarrow> bool" where
  "unique_ids ds = distinct (map doc_id ds)"

text \<open>The coming \<open>n\<close> store calls succeed.\<close>

definition calls_succeed :: "nat \<Rightarrow> world \<Rightarrow> bool" where
  "calls_succeed n w = list_all (\<lambda>f. f = None) (take n (faults w))"

section \<open>Sample data\<close>

definition avatar :: movie where
  "avatar = \<lparr>ident = 19995, title = ''Avatar'',
              poster_path = Some ''/kyeqWdyUXW608qlYkRqosgbbJyK.jpg''\<rparr>"

definition avatar_record :: "int \<Rightarrow> document" where
  "avatar_record c =
     \<lparr>doc_id = 1,
      attrs = [(''searchTerm'', AStr ''Avatar''), (''movie_id'', AInt 19995),
               (''title'', AStr ''Avatar''), (''count'', AInt c),
               (''poster_url'',
                AStr ''https://image.tmdb.org/t/p/w500/kyeqWdyUXW608qlYkRqosgbbJyK.jpg'')]\<rparr>"

definition uncounted_record :: document where
  "uncounted_record =
     \<lparr>doc_id = 7, attrs = [(''searchTerm'', AStr ''Dune''), (''title'', AStr ''Dune'')]\<rparr>"

definition empty_world :: world where
  "empty_world = \<lparr>documents = [], faults = [], console = []\<rparr>"

definition holding :: "document list \<Rightarrow> world" where
  "holding ds = \<lparr>documents = ds, faults = [], console = []\<rparr>"

definition untitled :: movie where
  "untitled = \<lparr>ident = 42, title = ''Solaris'', poster_path = Some []\<rparr>"

definition counted :: "nat \<Rightarrow> string \<Rightarrow> int \<Rightarrow> document" where
  "counted i t c = \<lparr>doc_id = i, attrs = [(''searchTerm'', AStr t), (''count'', AInt c)]\<rparr>"

definition six_terms :: "document list" where
  "six_terms = [counted 1 ''alien'' 3, counted 2 ''brazil'' 9, counted 3 ''cube'' 1,
                counted 4 ''dune'' 7, counted 5 ''eraserhead'' 9, counted 6 ''fargo'' 2]"

definition top_of_six :: "document list" where
  "top_of_six = [counted 2 ''brazil'' 9, counted 5 ''eraserhead'' 9, counted 4 ''dune'' 7,
                 counted 1 ''alien'' 3, counted 6 ''fargo'' 2]"

text \<open>
  A caller that passes a limit: \<open>getTrendingMovies\<close> declares no parameter, and JavaScript
  discards an argument the function does not declare.
\<close>

definition getTrendingMovies_given :: "nat \<Rightarrow> world \<Rightarrow> (thrown + document list option) \<times> world" where
  "getTrendingMovies_given limit w = getTrendingMovies w"

definition outage :: thrown where
  "outage = Error ''Network request failed''"

definition not_found :: response where
  "not_found = \<lparr>ok = False, statusText = ''Not Found'', json_result = Inr (JObj [])\<rparr>"

definition empty_object :: response where
  "empty_object = \<lparr>ok = True, statusText = ''OK'', json_result = Inr (JObj [])\<rparr>"

definition not_json :: response where
  "not_json = \<lparr>ok = True, statusText = ''OK'',
                json_result = Inl (Error ''JSON Parse error: Unexpected token'')\<rparr>"

definition one_movie :: response where
  "one_movie = \<lparr>ok = True, statusText = ''OK'',
     json_result = Inr (JObj [(''page'', JNum 1),
        (''results'', JArr [JObj [(''id'', JNum 19995), (''title'', JStr ''Avatar'')]])])\<rparr>"

section \<open>Facts about the store\<close>

lemma next_fault_ok:
  "calls_succeed (Suc n) w \<Longrightarrow> next_fault w = (None, w\<lparr>faults := tl (faults w)\<rparr>)"
  by (cases "faults w") (auto simp: calls_succeed_def next_fault_def)

lemma calls_succeed_tl:
  "calls_succeed (Suc n) w \<Longrightarrow> calls_succeed n (w\<lparr>faults := tl (faults w)\<rparr>)"
  by (cases "faults w") (auto simp: calls_succeed_def)

lemma select_Equal: "select [Equal k v] ds = filter (\<lambda>d. field k d = Some v) ds"
  by (simp add: select_def)

lemma select_searchTerm: "select [Equal ''searchTerm'' (AStr t)] ds = records_for t ds"
  by (simp add: select_Equal records_for_def)

lemma doc_id_le_max: "d \<in> set ds \<Longrightarrow> doc_id d \<le> foldr max (map doc_id ds) 0"
  by (induction ds) auto

lemma fresh_id_new: "fresh_id ds \<notin> set (map doc_id ds)"
proof
  assume "fresh_id ds \<in> set (map doc_id ds)"
  then obtain d where "d \<in> set ds" "doc_id d = fresh_id ds" by auto
  with doc_id_le_max[of d ds] show False by (simp add: fresh_id_def)
qed

lemma patch_document_ids: "map doc_id (patch_document i p ds) = map doc_id ds"
  by (induction ds) auto

lemma patch_document_map:
  "distinct (map doc_id ds) \<Longrightarrow>
   patch_document i p ds = map (\<lambda>e. if doc_id e = i then e\<lparr>attrs := AList.merge (attrs e) p\<rparr> else e) ds"
proof (induction ds)
  case Nil then show ?case by simp
next
  case (Cons d ds)
  show ?case
  proof (cases "doc_id d = i")
    case True
    with Cons.prems have "i \<notin> doc_id ` set ds" by simp
    then have "\<forall>e \<in> set ds. doc_id e \<noteq> i" by blast
    then have "map (\<lambda>e. if doc_id e = i then e\<lparr>attrs := AList.merge (attrs e) p\<rparr> else e) ds = ds"
      by (induction ds) auto
    with True show ?thesis by simp
  next
    case False
    with Cons show ?thesis by simp
  qed
qed






lemma records_for_subset: "d \<in> set (records_for q ds) \<Longrightarrow> d \<in> set ds"
  by (simp add: records_for_def)


lemma try_new:
  assumes ok: "calls_succeed 2 w" and rec: "records_for q (documents w) = []"
  shows "updateSearchCount_try q m w =
         (Inr (), w\<lparr>documents := documents w @
                       [\<lparr>doc_id = fresh_id (documents w), attrs = new_record q m\<rparr>],
                     faults := tl (tl (faults w))\<rparr>)"
proof -
  have two: "(2::nat) = Suc (Suc 0)" by simp
  let ?w1 = "w\<lparr>faults := tl (faults w)\<rparr>"
  have n1: "next_fault w = (None, ?w1)" using ok unfolding two by (rule next_fault_ok)
  have ok1: "calls_succeed (Suc 0) ?w1" using ok unfolding two by (rule calls_succeed_tl)
  have n2: "next_fault ?w1 = (None, ?w1\<lparr>faults := tl (faults ?w1)\<rparr>)"
    using ok1 by (rule next_fault_ok)
  have fr: "fresh_id (documents w) \<notin> doc_id ` set (documents w)"
    using fresh_id_new[of "documents w"] by simp
  show ?thesis
    by (simp add: updateSearchCount_try_def listDocuments_def createDocument_def n1 n2
        select_searchTerm rec fr Let_def)
qed



lemma records_for_map:
  "(\<And>e. field ''searchTerm'' (f e) = field ''searchTerm'' e) \<Longrightarrow>
   records_for t (map f ds) = map f (records_for t ds)"
  by (induction ds) (auto simp: records_for_def)

section \<open>Recording a search of a known term\<close>



section \<open>Recording a search of a new term\<close>

lemma records_for_append:
  "records_for t (xs @ ys) = records_for t xs @ records_for t ys"
  by (simp add: records_for_def)

text \<open>
  C2, as the code has it. When the store holds no record for the term \<open>t\<close> and the two
  store calls of \<open>updateSearchCount t m\<close> succeed, exactly one document is added, under a
  new identifier; it is the only record for \<open>t\<close> and holds the term, the movie's id and
  title, the count 1, and as poster URL the image base followed by the poster path when
  that path is a non-empty string, null when it is null or the empty string.
\<close>

theorem recordSearch_new:
  assumes "records_for t (documents w) = []" and "calls_succeed 2 w"
  shows "\<exists>d'. documents (snd (updateSearchCount t m w)) = documents w @ [d']
           \<and> records_for t (documents (snd (updateSearchCount t m w))) = [d']
           \<and> doc_id d' \<notin> set (map doc_id (documents w))
           \<and> attrs d' = [(''searchTerm'', AStr t), (''movie_id'', AInt (ident m)),
                 (''title'', AStr (title m)), (''count'', AInt 1),
                 (''poster_url'',
                  (case poster_path m of
                     None \<Rightarrow> ANull
                   | Some p \<Rightarrow> if p = [] then ANull
                              else AStr (''https://image.tmdb.org/t/p/w500'' @ p)))]"
proof -
  define d' where "d' = \<lparr>doc_id = fresh_id (documents w), attrs = new_record t m\<rparr>"
  have run: "updateSearchCount_try t m w =
      (Inr (), w\<lparr>documents := documents w @ [d'], faults := tl (tl (faults w))\<rparr>)"
    unfolding d'_def using assms(2,1) by (rule try_new)
  have docs: "documents (snd (updateSearchCount t m w)) = documents w @ [d']"
    by (simp add: updateSearchCount_def run)
  have mine: "records_for t [d'] = [d']"
    by (simp add: records_for_def d'_def new_record_def field_def)
  have one: "records_for t (documents (snd (updateSearchCount t m w))) = [d']"
    by (simp add: docs records_for_append assms(1) mine)
  have new: "doc_id d' \<notin> set (map doc_id (documents w))"
    using fresh_id_new[of "documents w"] by (simp add: d'_def)
  have flds: "attrs d' = [(''searchTerm'', AStr t), (''movie_id'', AInt (ident m)),
                 (''title'', AStr (title m)), (''count'', AInt 1),
                 (''poster_url'',
                  (case poster_path m of
                     None \<Rightarrow> ANull
                   | Some p \<Rightarrow> if p = [] then ANull
                              else AStr (''https://image.tmdb.org/t/p/w500'' @ p)))]"
    by (simp add: d'_def new_record_def poster_url_of_def image_base_def split: option.splits)
  from docs one new flds show ?thesis by blast
qed

theorem recordSearch_new_witness:
  "\<exists>d'. documents (snd (updateSearchCount ''Avatar'' avatar empty_world)) = [d']
       \<and> records_for ''Avatar'' (documents (snd (updateSearchCount ''Avatar'' avatar empty_world))) = [d']
       \<and> attrs d' = attrs (avatar_record 1)"
proof -
  have "records_for ''Avatar'' (documents empty_world) = []" and "calls_succeed 2 empty_world"
    by (simp_all add: records_for_def empty_world_def calls_succeed_def)
  from recordSearch_new [OF this, of avatar]
  show ?thesis by (simp add: empty_world_def avatar_def avatar_record_def)
qed

text \<open>
  C2 as stated fails for a poster path that is present and empty: the code tests the path
  for truthiness, so the record gets a null poster URL, not the image base.
\<close>

theorem poster_path_empty_counterexample:
  "poster_path untitled = Some []
   \<and> map (field ''poster_url'')
        (records_for ''Solaris'' (documents (snd (updateSearchCount ''Solaris'' untitled empty_world))))
      = [Some ANull]
   \<and> Some ANull \<noteq> Some (AStr (image_base @ []))"
  by (simp add: untitled_def empty_world_def updateSearchCount_def updateSearchCount_try_def
      listDocuments_def createDocument_def next_fault_def select_def records_for_def
      field_def new_record_def poster_url_of_def fresh_id_def Let_def)

section \<open>An update writes the count alone\<close>

lemma patch_document_nth_other:
  "i < length ds \<Longrightarrow> doc_id (ds ! i) \<noteq> j \<Longrightarrow> patch_document j p ds ! i = ds ! i"
proof (induction ds arbitrary: i)
  case Nil then show ?case by simp
next
  case (Cons d ds)
  then show ?case by (cases i) auto
qed

lemma patch_document_nth_field:
  "i < length ds \<Longrightarrow> k \<noteq> k' \<Longrightarrow>
   field k (patch_document j [(k', v)] ds ! i) = field k (ds ! i)"
proof (induction ds arbitrary: i)
  case Nil then show ?case by simp
next
  case (Cons d ds)
  then show ?case
    by (cases i) (auto simp: field_def AList.merge_conv' AList.update_conv')
qed

lemma found_documents:
  assumes "calls_succeed 1 w" and "records_for q (documents w) = d # rest"
  shows "documents (snd (updateSearchCount q m w)) = documents w
       \<or> documents (snd (updateSearchCount q m w)) =
           patch_document (doc_id d) [(''count'', plus_one (or_zero (field ''count'' d)))]
             (documents w)"
proof -
  have one: "(1::nat) = Suc 0" by simp
  let ?w1 = "w\<lparr>faults := tl (faults w)\<rparr>"
  have n1: "next_fault w = (None, ?w1)" using assms(1) unfolding one by (rule next_fault_ok)
  show ?thesis
    by (auto simp: updateSearchCount_def updateSearchCount_try_def listDocuments_def
        updateDocument_def n1 select_searchTerm assms(2) next_fault_def console_error_def
        split: list.splits option.splits)
qed

text \<open>
  C10. When the listing succeeds and finds a record \<open>d\<close> for the term, whatever the update
  call then does, the collection keeps its documents and their identifiers in place, every
  field other than \<open>count\<close> of every document keeps its value (so the found record's
  \<open>searchTerm\<close>, \<open>movie_id\<close>, \<open>title\<close> and \<open>poster_url\<close> do), and every document
  with another identifier than \<open>d\<close>'s is unchanged as a whole.
\<close>

theorem update_writes_count_only:
  assumes "calls_succeed 1 w" and "records_for q (documents w) = d # rest"
  shows "map doc_id (documents (snd (updateSearchCount q m w))) = map doc_id (documents w)
       \<and> (\<forall>i < length (documents w).
            (\<forall>k. k \<noteq> ''count'' \<longrightarrow>
               field k (documents (snd (updateSearchCount q m w)) ! i) = field k (documents w ! i))
          \<and> (doc_id (documents w ! i) \<noteq> doc_id d \<longrightarrow>
               documents (snd (updateSearchCount q m w)) ! i = documents w ! i))"
  using found_documents[OF assms, of m]
  by (auto simp: patch_document_ids patch_document_nth_other patch_document_nth_field)

theorem update_writes_count_only_witness:
  "map doc_id (documents (snd (updateSearchCount ''Avatar'' avatar
        (holding [uncounted_record, avatar_record 4])))) = [7, 1]
   \<and> documents (snd (updateSearchCount ''Avatar'' avatar
        (holding [uncounted_record, avatar_record 4]))) ! 0 = uncounted_record
   \<and> field ''title'' (documents (snd (updateSearchCount ''Avatar'' avatar
        (holding [uncounted_record, avatar_record 4]))) ! 1) = Some (AStr ''Avatar'')"
proof -
  let ?w = "holding [uncounted_record, avatar_record 4]"
  have ok: "calls_succeed 1 ?w"
    and rec: "records_for ''Avatar'' (documents ?w) = avatar_record 4 # []"
    by (simp_all add: calls_succeed_def holding_def records_for_def field_def
        avatar_record_def uncounted_record_def)
  have docs: "documents ?w = [uncounted_record, avatar_record 4]" by (simp add: holding_def)
  note fr = update_writes_count_only [OF ok rec, of avatar, unfolded docs]
  from fr have ids: "map doc_id (documents (snd (updateSearchCount ''Avatar'' avatar ?w))) = [7, 1]"
    by (simp add: uncounted_record_def avatar_record_def)
  from fr have "doc_id ([uncounted_record, avatar_record 4] ! 0) \<noteq> doc_id (avatar_record 4) \<longrightarrow>
       documents (snd (updateSearchCount ''Avatar'' avatar ?w)) ! 0 = [uncounted_record, avatar_record 4] ! 0"
    by simp
  then have first: "documents (snd (updateSearchCount ''Avatar'' avatar ?w)) ! 0 = uncounted_record"
    by (simp add: uncounted_record_def avatar_record_def)
  from fr have "field ''title'' (documents (snd (updateSearchCount ''Avatar'' avatar ?w)) ! 1)
      = field ''title'' ([uncounted_record, avatar_record 4] ! 1)"
    by simp
  then have second: "field ''title'' (documents (snd (updateSearchCount ''Avatar'' avatar ?w)) ! 1)
      = Some (AStr ''Avatar'')"
    by (simp add: avatar_record_def field_def)
  from ids first second show ?thesis by simp
qed

section \<open>The trending list\<close>

lemma set_insert_desc: "set (insert_desc k d ds) = insert d (set ds)"
  by (induction ds) auto

lemma sorted_insert_desc:
  "sorted_wrt (\<lambda>a b. rank k b \<le> rank k a) ds \<Longrightarrow>
   sorted_wrt (\<lambda>a b. rank k b \<le> rank k a) (insert_desc k d ds)"
  by (induction ds) (auto simp: set_insert_desc)

lemma sorted_order_desc: "sorted_wrt (\<lambda>a b. rank k b \<le> rank k a) (order_desc k ds)"
  unfolding order_desc_def by (induction ds) (auto simp: sorted_insert_desc)

lemma set_order_desc: "set (order_desc k ds) = set ds"
  unfolding order_desc_def by (induction ds) (auto simp: set_insert_desc)

lemma select_trending: "select [Limit n, OrderDesc k] ds = take n (order_desc k ds)"
  by (simp add: select_def)

lemma sorted_wrt_take_desc:
  "sorted_wrt P xs \<Longrightarrow> sorted_wrt P (take n xs)"
  by (metis append_take_drop_id sorted_wrt_append)

lemma top_of_six_eval: "take 5 (order_desc ''count'' six_terms) = top_of_six"
  by (simp add: order_desc_def six_terms_def top_of_six_def counted_def rank_def field_def)

text \<open>
  C4, as the code has it. \<open>getTrendingMovies\<close> takes no limit: when the store call
  succeeds it returns the first five documents of the collection ordered by \<open>count\<close>
  descending, and whatever list it returns has at most five entries, is ordered by
  \<open>count\<close> descending and holds documents of the collection only.
\<close>

theorem getTrendingMovies_top_five:
  "(calls_succeed 1 w \<longrightarrow> fst (getTrendingMovies w) = Inr (Some (take 5 (order_desc ''count'' (documents w)))))
   \<and> (\<forall>ds. fst (getTrendingMovies w) = Inr (Some ds) \<longrightarrow>
         length ds \<le> 5
       \<and> sorted_wrt (\<lambda>a b. rank ''count'' b \<le> rank ''count'' a) ds
       \<and> set ds \<subseteq> set (documents w))"
proof (intro conjI impI allI)
  assume "calls_succeed 1 w"
  then have "calls_succeed (Suc 0) w" by simp
  then have "next_fault w = (None, w\<lparr>faults := tl (faults w)\<rparr>)" by (rule next_fault_ok)
  then show "fst (getTrendingMovies w) = Inr (Some (take 5 (order_desc ''count'' (documents w))))"
    by (simp add: getTrendingMovies_def listDocuments_def select_trending)
next
  fix ds assume r: "fst (getTrendingMovies w) = Inr (Some ds)"
  have docs: "documents (snd (next_fault w)) = documents w"
    by (simp add: next_fault_def split: list.splits)
  from r have ds: "ds = take 5 (order_desc ''count'' (documents w))"
    using docs
    by (auto simp: getTrendingMovies_def listDocuments_def select_trending
        split: prod.splits option.splits)
  show "length ds \<le> 5" by (simp add: ds)
  show "sorted_wrt (\<lambda>a b. rank ''count'' b \<le> rank ''count'' a) ds"
    unfolding ds by (rule sorted_wrt_take_desc) (rule sorted_order_desc)
  show "set ds \<subseteq> set (documents w)"
    unfolding ds using set_take_subset[of 5 "order_desc ''count'' (documents w)"]
    by (simp add: set_order_desc)
qed

theorem getTrendingMovies_top_five_witness:
  "fst (getTrendingMovies (holding six_terms)) = Inr (Some top_of_six)
   \<and> length top_of_six \<le> 5
   \<and> sorted_wrt (\<lambda>a b. rank ''count'' b \<le> rank ''count'' a) top_of_six
   \<and> set top_of_six \<subseteq> set (documents (holding six_terms))"
proof -
  have ok: "calls_succeed 1 (holding six_terms)"
    by (simp add: calls_succeed_def holding_def)
  have docs: "documents (holding six_terms) = six_terms" by (simp add: holding_def)
  from getTrendingMovies_top_five [of "holding six_terms"] ok
  have r: "fst (getTrendingMovies (holding six_terms)) = Inr (Some top_of_six)"
    by (simp add: docs top_of_six_eval)
  with getTrendingMovies_top_five [of "holding six_terms"]
  show ?thesis by blast
qed

text \<open>
  C4 as stated fails for a limit other than five: a caller that asks for three entries
  gets five from a collection of six.
\<close>

theorem getTrendingMovies_limit_counterexample:
  "fst (getTrendingMovies_given 3 (holding six_terms)) = Inr (Some top_of_six)
   \<and> \<not> length top_of_six \<le> 3"
  by (simp add: getTrendingMovies_given_def getTrendingMovies_def listDocuments_def
      next_fault_def holding_def select_trending top_of_six_eval)
     (simp add: top_of_six_def)

section \<open>Store failures stay inside\<close>

text \<open>
  C5. \<open>updateSearchCount\<close> never throws, whatever the store does: a failure of its first
  or of its second store call is caught and logged, and leaves the collection as it was.
  \<open>getTrendingMovies\<close> never throws either: when its store call fails it logs the error
  and returns \<open>undefined\<close> (\<open>None\<close>), not an empty list.
\<close>

theorem store_failures_absorbed:
  "fst (updateSearchCount q m w) = Inr ()
   \<and> (\<forall>e fs. faults w = Some e # fs \<longrightarrow>
         updateSearchCount q m w =
           (Inr (), w\<lparr>faults := fs, console := console w @ [RecordSearchFailed e]\<rparr>))
   \<and> (\<forall>e fs. faults w = None # Some e # fs \<longrightarrow>
         updateSearchCount q m w =
           (Inr (), w\<lparr>faults := fs, console := console w @ [RecordSearchFailed e]\<rparr>))
   \<and> (\<exists>r. fst (getTrendingMovies w) = Inr r)
   \<and> (\<forall>e fs. faults w = Some e # fs \<longrightarrow>
         getTrendingMovies w =
           (Inr None, w\<lparr>faults := fs, console := console w @ [Logged e]\<rparr>))"
proof (intro conjI allI impI)
  show "fst (updateSearchCount q m w) = Inr ()"
    by (simp add: updateSearchCount_def split: prod.splits sum.splits)
next
  fix e fs assume f: "faults w = Some e # fs"
  then show "updateSearchCount q m w =
      (Inr (), w\<lparr>faults := fs, console := console w @ [RecordSearchFailed e]\<rparr>)"
    by (simp add: updateSearchCount_def updateSearchCount_try_def listDocuments_def
        next_fault_def console_error_def)
next
  fix e fs assume f: "faults w = None # Some e # fs"
  then show "updateSearchCount q m w =
      (Inr (), w\<lparr>faults := fs, console := console w @ [RecordSearchFailed e]\<rparr>)"
    by (simp add: updateSearchCount_def updateSearchCount_try_def listDocuments_def
        updateDocument_def createDocument_def next_fault_def console_error_def Let_def)
next
  show "\<exists>r. fst (getTrendingMovies w) = Inr r"
    by (simp add: getTrendingMovies_def split: prod.splits sum.splits)
next
  fix e fs assume f: "faults w = Some e # fs"
  then show "getTrendingMovies w =
      (Inr None, w\<lparr>faults := fs, console := console w @ [Logged e]\<rparr>)"
    by (simp add: getTrendingMovies_def listDocuments_def next_fault_def console_error_def)
qed

theorem store_failures_absorbed_witness:
  "updateSearchCount ''Avatar'' avatar \<lparr>documents = [avatar_record 1], faults = [Some outage], console = []\<rparr>
     = (Inr (), \<lparr>documents = [avatar_record 1], faults = [], console = [RecordSearchFailed outage]\<rparr>)
   \<and> updateSearchCount ''Avatar'' avatar \<lparr>documents = [avatar_record 1], faults = [None, Some outage], console = []\<rparr>
     = (Inr (), \<lparr>documents = [avatar_record 1], faults = [], console = [RecordSearchFailed outage]\<rparr>)
   \<and> getTrendingMovies \<lparr>documents = [avatar_record 1], faults = [Some outage], console = []\<rparr>
     = (Inr None, \<lparr>documents = [avatar_record 1], faults = [], console = [Logged outage]\<rparr>)"
  using store_failures_absorbed [of "''Avatar''" avatar
          "\<lparr>documents = [avatar_record 1], faults = [Some outage], console = []\<rparr>"]
        store_failures_absorbed [of "''Avatar''" avatar
          "\<lparr>documents = [avatar_record 1], faults = [None, Some outage], console = []\<rparr>"]
  by simp

section \<open>One record per term, counts that only grow\<close>

lemma step_documents:
  "documents (snd (updateSearchCount q m w)) = documents w
   \<or> (\<exists>d rest. records_for q (documents w) = d # rest
         \<and> documents (snd (updateSearchCount q m w)) =
             patch_document (doc_id d) [(''count'', plus_one (or_zero (field ''count'' d)))]
               (documents w))
   \<or> (records_for q (documents w) = []
         \<and> documents (snd (updateSearchCount q m w)) =
             documents w @ [\<lparr>doc_id = fresh_id (documents w), attrs = new_record q m\<rparr>])"
proof -
  have docs: "documents (snd (next_fault v)) = documents v" for v
    by (simp add: next_fault_def split: list.splits)
  obtain f w1 where n1: "next_fault w = (f, w1)" by (cases "next_fault w")
  obtain g w2 where n2: "next_fault w1 = (g, w2)" by (cases "next_fault w1")
  have d1: "documents w1 = documents w" using docs[of w] n1 by simp
  have d2: "documents w2 = documents w" using docs[of w1] n2 d1 by simp
  show ?thesis
  proof (cases "records_for q (documents w)")
    case Nil
    have fr: "fresh_id (documents w) \<notin> doc_id ` set (documents w)"
      using fresh_id_new[of "documents w"] by simp
    show ?thesis
      by (cases f; cases g)
         (simp_all add: updateSearchCount_def updateSearchCount_try_def listDocuments_def
           createDocument_def n1 n2 d1 d2 select_searchTerm Nil console_error_def fr Let_def)
  next
    case (Cons d rest)
    show ?thesis
      by (cases f; cases g; cases "find (\<lambda>e. doc_id e = doc_id d) (documents w)")
         (simp_all add: updateSearchCount_def updateSearchCount_try_def listDocuments_def
           updateDocument_def n1 n2 d1 d2 select_searchTerm Cons console_error_def)
  qed
qed

lemma trending_documents: "documents (snd (getTrendingMovies w)) = documents w"
  by (simp add: getTrendingMovies_def listDocuments_def next_fault_def console_error_def
      split: list.splits option.splits)

lemma term_of_merge_count:
  "term_of (d\<lparr>attrs := AList.merge (attrs d) [(''count'', v)]\<rparr>) = term_of d"
  by (simp add: term_of_def field_def AList.merge_conv' AList.update_conv')

lemma terms_patch_document:
  "List.map_filter term_of (patch_document i [(''count'', v)] ds) = List.map_filter term_of ds"
proof (induction ds)
  case Nil then show ?case by simp
next
  case (Cons d ds)
  have "term_of (d\<lparr>attrs := AList.update ''count'' v (attrs d)\<rparr>) = term_of d"
    using term_of_merge_count[of d v] by simp
  with Cons show ?case by (simp split: option.splits)
qed

lemma terms_append: "List.map_filter f (xs @ ys) = List.map_filter f xs @ List.map_filter f ys"
  by (simp add: List.map_filter_def)

lemma records_for_empty_term:
  "records_for t ds = [] \<Longrightarrow> t \<notin> set (List.map_filter term_of ds)"
proof -
  assume e: "records_for t ds = []"
  show ?thesis
  proof
    assume "t \<in> set (List.map_filter term_of ds)"
    then obtain d where "d \<in> set ds" "term_of d = Some t"
      by (auto simp: List.map_filter_def)
    then have "d \<in> set (records_for t ds)"
      by (auto simp: records_for_def term_of_def split: option.splits attr.splits)
    with e show False by simp
  qed
qed

lemma step_one_per_term:
  assumes "one_per_term (documents w)"
  shows "one_per_term (documents (snd (updateSearchCount q m w)))"
proof -
  from step_documents[of q m w] show ?thesis
  proof (elim disjE exE conjE)
    assume "documents (snd (updateSearchCount q m w)) = documents w"
    with assms show ?thesis by simp
  next
    fix d rest
    assume "documents (snd (updateSearchCount q m w)) =
             patch_document (doc_id d) [(''count'', plus_one (or_zero (field ''count'' d)))] (documents w)"
    with assms show ?thesis by (simp add: one_per_term_def terms_patch_document)
  next
    assume none: "records_for q (documents w) = []"
      and new: "documents (snd (updateSearchCount q m w)) =
             documents w @ [\<lparr>doc_id = fresh_id (documents w), attrs = new_record q m\<rparr>]"
    have t: "term_of \<lparr>doc_id = fresh_id (documents w), attrs = new_record q m\<rparr> = Some q"
      by (simp add: term_of_def field_def new_record_def)
    from none have "q \<notin> set (List.map_filter term_of (documents w))"
      by (rule records_for_empty_term)
    with assms show ?thesis
      by (simp add: new one_per_term_def terms_append t)
  qed
qed

lemma step_unique_ids:
  assumes "unique_ids (documents w)"
  shows "unique_ids (documents (snd (updateSearchCount q m w)))"
proof -
  from step_documents[of q m w] show ?thesis
  proof (elim disjE exE conjE)
    assume "documents (snd (updateSearchCount q m w)) = documents w"
    with assms show ?thesis by simp
  next
    fix d rest
    assume "documents (snd (updateSearchCount q m w)) =
             patch_document (doc_id d) [(''count'', plus_one (or_zero (field ''count'' d)))] (documents w)"
    with assms show ?thesis by (simp add: unique_ids_def patch_document_ids)
  next
    assume new: "documents (snd (updateSearchCount q m w)) =
             documents w @ [\<lparr>doc_id = fresh_id (documents w), attrs = new_record q m\<rparr>]"
    from assms fresh_id_new[of "documents w"] show ?thesis
      by (simp add: new unique_ids_def)
  qed
qed

lemma rank_count_patched:
  "rank ''count'' d = Some c \<Longrightarrow>
   rank ''count'' (d\<lparr>attrs := AList.merge (attrs d)
       [(''count'', plus_one (or_zero (field ''count'' d)))]\<rparr>) = Some (c + 1)"
  by (auto simp: rank_def field_def AList.merge_conv' AList.update_conv' or_zero_def
      split: option.splits attr.splits)

lemma step_count_grows:
  assumes u: "unique_ids (documents w)" and c: "count_for t (documents w) = Some c"
  shows "\<exists>c'. count_for t (documents (snd (updateSearchCount q m w))) = Some c' \<and> c \<le> c'"
proof -
  from c obtain e es where rec: "records_for t (documents w) = e # es" and rk: "rank ''count'' e = Some c"
    by (auto simp: count_for_def split: list.splits)
  have e_in: "e \<in> set (documents w)"
    using rec records_for_subset[of e t "documents w"] by simp
  from step_documents[of q m w] show ?thesis
  proof (elim disjE exE conjE)
    assume "documents (snd (updateSearchCount q m w)) = documents w"
    with c show ?thesis by simp
  next
    fix d rest
    assume found: "records_for q (documents w) = d # rest"
      and new: "documents (snd (updateSearchCount q m w)) =
             patch_document (doc_id d) [(''count'', plus_one (or_zero (field ''count'' d)))] (documents w)"
    let ?p = "[(''count'', plus_one (or_zero (field ''count'' d)))]"
    let ?f = "\<lambda>x. if doc_id x = doc_id d then x\<lparr>attrs := AList.merge (attrs x) ?p\<rparr> else x"
    have d_in: "d \<in> set (documents w)"
      using found records_for_subset[of d q "documents w"] by simp
    have docs: "documents (snd (updateSearchCount q m w)) = map ?f (documents w)"
      using u by (simp add: new unique_ids_def patch_document_map)
    have keep: "field ''searchTerm'' (?f x) = field ''searchTerm'' x" for x
      by (simp add: field_def AList.merge_conv' AList.update_conv')
    have "records_for t (map ?f (documents w)) = map ?f (records_for t (documents w))"
      using keep by (rule records_for_map)
    then have cf: "count_for t (documents (snd (updateSearchCount q m w))) = rank ''count'' (?f e)"
      by (simp only: docs rec count_for_def list.map list.case)
    show ?thesis
    proof (cases "doc_id e = doc_id d")
      case True
      with u e_in d_in have "e = d"
        by (auto simp: unique_ids_def distinct_map inj_on_def)
      then have "?f e = d\<lparr>attrs := AList.merge (attrs d) ?p\<rparr>" by simp
      moreover from rk \<open>e = d\<close> have "rank ''count'' (d\<lparr>attrs := AList.merge (attrs d) ?p\<rparr>) = Some (c + 1)"
        using rank_count_patched[of d c] by simp
      ultimately have "rank ''count'' (?f e) = Some (c + 1)" by (simp only:)
      with cf show ?thesis by simp
    next
      case False
      then have "?f e = e" by simp
      with cf rk show ?thesis by simp
    qed
  next
    assume new: "documents (snd (updateSearchCount q m w)) =
             documents w @ [\<lparr>doc_id = fresh_id (documents w), attrs = new_record q m\<rparr>]"
    show ?thesis using rk by (simp add: new count_for_def records_for_append rec)
  qed
qed

lemma run_invariants:
  "unique_ids (documents w) \<Longrightarrow> one_per_term (documents w) \<Longrightarrow>
   unique_ids (documents (run ops w)) \<and> one_per_term (documents (run ops w))"
proof (induction ops arbitrary: w)
  case Nil then show ?case by simp
next
  case (Cons a ops)
  show ?case
  proof (cases a)
    case (RecordSearch q m)
    with Cons.prems Cons.IH[of "snd (updateSearchCount q m w)"] show ?thesis
      by (simp add: step_unique_ids step_one_per_term)
  next
    case GetTrending
    with Cons.prems Cons.IH[of "snd (getTrendingMovies w)"] show ?thesis
      by (simp add: trending_documents)
  qed
qed

lemma run_count_grows:
  "unique_ids (documents w) \<Longrightarrow> count_for t (documents w) = Some c \<Longrightarrow>
   \<exists>c'. count_for t (documents (run ops w)) = Some c' \<and> c \<le> c'"
proof (induction ops arbitrary: w c)
  case Nil then show ?case by simp
next
  case (Cons a ops)
  show ?case
  proof (cases a)
    case (RecordSearch q m)
    let ?w = "snd (updateSearchCount q m w)"
    from Cons.prems obtain c1 where c1: "count_for t (documents ?w) = Some c1" "c \<le> c1"
      using step_count_grows by blast
    have "unique_ids (documents ?w)" using Cons.prems(1) by (rule step_unique_ids)
    from Cons.IH[OF this c1(1)] obtain c' where
      "count_for t (documents (run ops ?w)) = Some c'" "c1 \<le> c'" by blast
    with c1(2) RecordSearch show ?thesis by auto
  next
    case GetTrending
    with Cons.prems Cons.IH[of "snd (getTrendingMovies w)" c] show ?thesis
      by (simp add: trending_documents)
  qed
qed

text \<open>
  C3. From a collection with unique document identifiers and at most one record per search
  term (terms compared as they are, by string equality), one \<open>updateSearchCount\<close> and any
  sequence of the store operations of this code (\<open>updateSearchCount\<close> with any arguments,
  \<open>getTrendingMovies\<close>, store calls failing or not) leave at most one record per term, and
  a term whose record has the integer count \<open>c\<close> still has a record afterwards, with a
  count of at least \<open>c\<close>.
\<close>

theorem one_record_per_term_kept:
  assumes "unique_ids (documents w)" and "one_per_term (documents w)"
  shows "one_per_term (documents (snd (updateSearchCount q m w)))
       \<and> one_per_term (documents (run ops w))
       \<and> (\<forall>t c. count_for t (documents w) = Some c \<longrightarrow>
             (\<exists>c'. count_for t (documents (run ops w)) = Some c' \<and> c \<le> c'))"
  using assms step_one_per_term run_invariants run_count_grows by blast

theorem one_record_per_term_kept_witness:
  "one_per_term (documents (run [RecordSearch ''Avatar'' avatar, GetTrending,
        RecordSearch ''Dune'' untitled, RecordSearch ''Avatar'' avatar] empty_world))
   \<and> count_for ''Avatar'' (documents (snd (updateSearchCount ''Avatar'' avatar empty_world))) = Some 1
   \<and> (\<exists>c'. count_for ''Avatar'' (documents (run [RecordSearch ''Dune'' untitled, GetTrending,
          RecordSearch ''Avatar'' avatar] (snd (updateSearchCount ''Avatar'' avatar empty_world)))) = Some c'
        \<and> 1 \<le> c')"
proof -
  have e: "unique_ids (documents empty_world)" "one_per_term (documents empty_world)"
    by (simp_all add: unique_ids_def one_per_term_def empty_world_def)
  note a = one_record_per_term_kept [OF e, of "''Avatar''" avatar
      "[RecordSearch ''Avatar'' avatar, GetTrending, RecordSearch ''Dune'' untitled,
        RecordSearch ''Avatar'' avatar]"]
  let ?w = "snd (updateSearchCount ''Avatar'' avatar empty_world)"
  have docs: "documents ?w = [avatar_record 1]"
    by (simp add: updateSearchCount_def updateSearchCount_try_def listDocuments_def
        createDocument_def next_fault_def select_def empty_world_def fresh_id_def Let_def
        new_record_def poster_url_of_def image_base_def avatar_def avatar_record_def)
  have s: "unique_ids (documents ?w)" "one_per_term (documents ?w)"
    and c: "count_for ''Avatar'' (documents ?w) = Some 1"
    by (simp_all add: docs unique_ids_def one_per_term_def avatar_record_def term_of_def
        field_def count_for_def records_for_def rank_def)
  note b = one_record_per_term_kept [OF s, of "''Avatar''" avatar
      "[RecordSearch ''Dune'' untitled, GetTrending, RecordSearch ''Avatar'' avatar]"]
  from a b c show ?thesis by blast
qed

section \<open>The request \<open>fetchMovies\<close> issues\<close>





section \<open>What \<open>fetchMovies\<close> returns\<close>

text \<open>
  C9. When the response's status is not a success, \<open>fetchMovies\<close> throws an \<open>Error\<close>
  whose message ends with the response's status text; it returns no value.
\<close>

theorem fetchMovies_bad_status:
  assumes "respond n \<lparr>url = endpoint query, http_method = ''GET'', headers = TMDB_headers key\<rparr> = Inr r"
    and "\<not> ok r"
  shows "fst (fetchMovies key query n) = Inl (Error (''Failed to fetch movies: '' @ statusText r))
       \<and> message_of (Error (''Failed to fetch movies: '' @ statusText r))
           = Some (''Failed to fetch movies: '' @ statusText r)"
  using assms by (simp add: fetchMovies_def fetch_def)

theorem fetchMovies_bad_status_witness:
  "fst (fetchMovies None ''Avatar'' (quiet_net not_found)) = Inl (Error ''Failed to fetch movies: Not Found'')"
proof -
  have "respond (quiet_net not_found)
      \<lparr>url = endpoint ''Avatar'', http_method = ''GET'', headers = TMDB_headers None\<rparr> = Inr not_found"
    and "\<not> ok not_found"
    by (simp_all add: quiet_net_def not_found_def)
  from fetchMovies_bad_status [OF this] show ?thesis by (simp add: not_found_def)
qed

text \<open>
  C7, as the code has it. On a successful status \<open>fetchMovies\<close> throws only what
  \<open>response.json()\<close> rejects with (the body is not JSON) or a \<open>TypeError\<close> (the body is
  the JSON null); for every other body it returns \<open>data.results\<close> unchecked:
  \<open>undefined\<close> when the decoded value has no such property.
\<close>

theorem fetchMovies_body:
  assumes "respond n \<lparr>url = endpoint query, http_method = ''GET'', headers = TMDB_headers key\<rparr> = Inr r"
    and "ok r"
  shows "fst (fetchMovies key query n) =
           (case json_result r of
              Inl e \<Rightarrow> Inl e
            | Inr JNull \<Rightarrow> Inl (TypeError ''Cannot read property results of null'')
            | Inr (JObj fs) \<Rightarrow> Inr (map_of fs ''results'')
            | Inr v \<Rightarrow> Inr None)"
  using assms by (simp add: fetchMovies_def fetch_def split: sum.splits json.splits)

theorem fetchMovies_body_witness:
  "fst (fetchMovies None ''Avatar'' (quiet_net one_movie))
     = Inr (Some (JArr [JObj [(''id'', JNum 19995), (''title'', JStr ''Avatar'')]]))
   \<and> fst (fetchMovies None ''Avatar'' (quiet_net not_json))
     = Inl (Error ''JSON Parse error: Unexpected token'')"
proof -
  have a: "respond (quiet_net one_movie)
      \<lparr>url = endpoint ''Avatar'', http_method = ''GET'', headers = TMDB_headers None\<rparr> = Inr one_movie"
    and b: "ok one_movie"
    and c: "respond (quiet_net not_json)
      \<lparr>url = endpoint ''Avatar'', http_method = ''GET'', headers = TMDB_headers None\<rparr> = Inr not_json"
    and d: "ok not_json"
    by (simp_all add: quiet_net_def one_movie_def not_json_def)
  from fetchMovies_body [OF a b] fetchMovies_body [OF c d]
  show ?thesis by (simp add: one_movie_def not_json_def)
qed

text \<open>
  C7 as stated fails for a body that is JSON but has no \<open>results\<close>: the empty object is
  not of the expected shape, and \<open>fetchMovies\<close> returns \<open>undefined\<close> without an error.
\<close>

theorem fetchMovies_missing_results_counterexample:
  "json_result empty_object = Inr (JObj [])
   \<and> \<not> has_results (JObj [])
   \<and> fst (fetchMovies None ''Avatar'' (quiet_net empty_object)) = Inr None"
  by (simp add: empty_object_def quiet_net_def fetchMovies_def fetch_def)

section \<open>A failing producer under \<open>useFetch\<close>\<close>

text \<open>
  C6, as the code has it. When the producer fails with the thrown value \<open>e\<close>, \<open>fetchData\<close>
  ends with \<open>loading\<close> false, \<open>data\<close> as it was, and \<open>error\<close> set to \<open>e\<close> itself when
  \<open>e\<close> is an instance of \<open>Error\<close>, and to a new \<open>Error\<close> with the message
  \<open>An unknown error occurred\<close> for every other thrown value; a hook mounted with
  \<open>autoFetch\<close> settles with \<open>data\<close> absent, \<open>loading\<close> false and that error.
\<close>

theorem fetchData_failure:
  assumes "fetchFunction () = Inl e"
  shows "fetchData fetchFunction s =
           s\<lparr>loading := False,
             error := Some (if instanceof_Error e then e else Error ''An unknown error occurred'')\<rparr>
       \<and> useFetch fetchFunction True =
           \<lparr>data = None, loading = False,
            error = Some (if instanceof_Error e then e else Error ''An unknown error occurred'')\<rparr>"
  using assms
  by (simp add: fetchData_def fetchData_pending_def useFetch_def initial_state_def wrap_error_def)

theorem fetchData_failure_witness:
  "useFetch (\<lambda>u. Inl (Error ''boom'') :: thrown + nat) True =
     \<lparr>data = None, loading = False, error = Some (Error ''boom'')\<rparr>
   \<and> map_option message_of (error (useFetch (\<lambda>u. Inl (Error ''boom'') :: thrown + nat) True))
       = Some (Some ''boom'')
   \<and> error (fetchData (\<lambda>u. Inl (Value (JStr ''boom'')) :: thrown + nat)
        \<lparr>data = Some 3, loading = False, error = None\<rparr>)
       = Some (Error ''An unknown error occurred'')"
proof -
  have a: "(\<lambda>u. Inl (Error ''boom'') :: thrown + nat) () = Inl (Error ''boom'')"
    and b: "(\<lambda>u. Inl (Value (JStr ''boom'')) :: thrown + nat) () = Inl (Value (JStr ''boom''))"
    by simp_all
  from fetchData_failure [OF a] fetchData_failure [OF b, of "\<lparr>data = Some 3, loading = False, error = None\<rparr>"]
  show ?thesis by simp
qed

text \<open>
  C6 as stated fails for a thrown plain object that carries a message: it is no instance
  of \<open>Error\<close>, so its message is replaced by the fixed text although the value had one.
\<close>

theorem fetchData_plain_object_counterexample:
  "message_of (Value (JObj [(''message'', JStr ''boom'')])) = Some ''boom''
   \<and> useFetch (\<lambda>u. Inl (Value (JObj [(''message'', JStr ''boom'')])) :: thrown + nat) True
       = \<lparr>data = None, loading = False, error = Some (Error ''An unknown error occurred'')\<rparr>
   \<and> message_of (Error ''An unknown error occurred'') \<noteq> Some ''boom''"
  by (simp add: useFetch_def fetchData_def fetchData_pending_def initial_state_def wrap_error_def)

end
